theory Spec2Isabelle
  imports Complex_Main
begin

section \<open>Python values shared by the components\<close>

text \<open>
  Exceptions are values. \<open>ValueError\<close> is raised by the repository's own code and by
  \<open>range\<close> with a zero step; \<open>ExternalError\<close> stands for whatever an external
  collaborator (embedding service, vector index, language model, file system) raises,
  carrying the text \<open>str(e)\<close> of the exception.
\<close>

datatype error = ValueError string | ExternalError string

fun str_error :: "error \<Rightarrow> string" where
  "str_error (ValueError m) = m"
| "str_error (ExternalError m) = m"

text \<open>
  \<open>range(start, stop, step)\<close>: a zero step raises \<open>ValueError\<close>; a positive step counts
  up while below \<open>stop\<close>, a negative one counts down while above it.
\<close>

function py_range_up :: "int \<Rightarrow> int \<Rightarrow> int \<Rightarrow> int list" where
  "py_range_up i stop step =
     (if 0 < step \<and> i < stop then i # py_range_up (i + step) stop step else [])"
  by pat_completeness auto
termination
  by (relation "measure (\<lambda>(i, stop, step). nat (stop - i))") auto

function py_range_down :: "int \<Rightarrow> int \<Rightarrow> int \<Rightarrow> int list" where
  "py_range_down i stop step =
     (if step < 0 \<and> stop < i then i # py_range_down (i + step) stop step else [])"
  by pat_completeness auto
termination
  by (relation "measure (\<lambda>(i, stop, step). nat (i - stop))") auto

declare py_range_up.simps [simp del]
declare py_range_down.simps [simp del]

definition py_range :: "int \<Rightarrow> int \<Rightarrow> int \<Rightarrow> error + int list" where
  "py_range start stop step =
     (if step = 0 then Inl (ValueError ''range() arg 3 must not be zero'')
      else if 0 < step then Inr (py_range_up start stop step)
      else Inr (py_range_down start stop step))"

text \<open>
  Slicing \<open>xs[i:j]\<close>: a negative bound counts from the end, and every bound is clamped
  to the sequence, so a slice never raises.
\<close>

definition py_bound :: "nat \<Rightarrow> int \<Rightarrow> nat" where
  "py_bound n k = (if k < 0 then nat (max 0 (int n + k)) else min n (nat k))"

definition py_slice :: "'a list \<Rightarrow> int \<Rightarrow> int \<Rightarrow> 'a list" where
  "py_slice xs i j =
     (let a = py_bound (length xs) i; b = py_bound (length xs) j
      in take (b - a) (drop a xs))"

text \<open>\<open>xs[k:]\<close>, the slice with no upper bound.\<close>

definition py_slice_from :: "'a list \<Rightarrow> int \<Rightarrow> 'a list" where
  "py_slice_from xs k = drop (py_bound (length xs) k) xs"

text \<open>\<open>xs[:k]\<close>, the slice with no lower bound.\<close>

definition py_slice_to :: "'a list \<Rightarrow> int \<Rightarrow> 'a list" where
  "py_slice_to xs k = take (py_bound (length xs) k) xs"

text \<open>
  \<open>str(n)\<close> for an integer: its decimal digits, with a minus sign when negative.
\<close>

definition digit_char :: "nat \<Rightarrow> char" where
  "digit_char d = ''0123456789'' ! (d mod 10)"

function str_nat :: "nat \<Rightarrow> string" where
  "str_nat n = (if n < 10 then [digit_char n] else str_nat (n div 10) @ [digit_char (n mod 10)])"
  by pat_completeness auto
termination
  by (relation "measure id") auto

declare str_nat.simps [simp del]

definition str_int :: "int \<Rightarrow> string" where
  "str_int i = (if i < 0 then CHR ''-'' # str_nat (nat (- i)) else str_nat (nat i))"

text \<open>
  \<open>s.strip()\<close> and \<open>s.lower()\<close>, a character standing for its code point below 256:
  the whitespace characters there are tab, line feed, vertical tab, form feed, carriage
  return, the four separators \<open>0x1C\<close> to \<open>0x1F\<close>, the space, next line \<open>0x85\<close> and
  the no-break space \<open>0xA0\<close>; \<open>lower\<close> is taken on the ASCII letters.
\<close>

definition py_isspace :: "char \<Rightarrow> bool" where
  "py_isspace c =
     (let n = of_char c :: nat
      in (9 \<le> n \<and> n \<le> 13) \<or> (28 \<le> n \<and> n \<le> 32) \<or> n = 133 \<or> n = 160)"

definition py_strip :: "string \<Rightarrow> string" where
  "py_strip s = rev (dropWhile py_isspace (rev (dropWhile py_isspace s)))"

definition lower_char :: "char \<Rightarrow> char" where
  "lower_char c = (let n = of_char c :: nat in if 65 \<le> n \<and> n \<le> 90 then char_of (n + 32) else c)"

definition py_lower :: "string \<Rightarrow> string" where
  "py_lower s = map lower_char s"

text \<open>\<open>needle in haystack\<close> for strings: some suffix of the haystack starts with the needle.\<close>

fun py_in :: "string \<Rightarrow> string \<Rightarrow> bool" where
  "py_in needle [] = (needle = [])"
| "py_in needle (c # cs) = (take (length needle) (c # cs) = needle \<or> py_in needle cs)"

text \<open>\<open>sep.join(parts)\<close>\<close>

fun py_join :: "string \<Rightarrow> string list \<Rightarrow> string" where
  "py_join sep [] = []"
| "py_join sep [x] = x"
| "py_join sep (x # y # ys) = x @ sep @ py_join sep (y # ys)"

definition nl :: string where
  "nl = [CHR 0x0A]"

text \<open>
  What a call to an external collaborator gives back: it raises (with the text of the
  exception) or it returns.
\<close>

datatype 'a outcome = Raises string | Returns 'a

type_synonym float = real
type_synonym bytes = string

section \<open>Configuration (config.py)\<close>

record config =
  GEMINI_EMBEDDING_DIM :: int
  IMAGES_DIR :: string
  CHUNK_SIZE :: int
  CHUNK_OVERLAP :: int

definition Config :: config where
  "Config = \<lparr> GEMINI_EMBEDDING_DIM = 768, IMAGES_DIR = ''data/images'',
              CHUNK_SIZE = 1000, CHUNK_OVERLAP = 200 \<rparr>"

section \<open>Document processor: chunking (document\_processor.py)\<close>

text \<open>
  A page is the dict built by \<open>process_pdf\<close>. \<open>chunk_document\<close> reads
  \<open>image_descriptions\<close> with \<open>page.get('image_descriptions', [])\<close>, so that key may be
  absent (\<open>None\<close>); the other keys are read with \<open>page[...]\<close>.
\<close>

record page =
  page_number :: int
  page_text :: string
  image_descriptions :: "string list option"
  full_content :: string

text \<open>
  A chunk is the dict appended by \<open>chunk_document\<close>. \<open>upsert_documents\<close> reads
  \<open>has_images\<close> with \<open>doc.get('has_images', False)\<close>, so that key may be absent.
\<close>

record chunk =
  chunk_id :: int
  chunk_page_number :: int
  content :: string
  has_images :: "bool option"

text \<open>\<open>page.get('image_descriptions', [])\<close>\<close>

definition get_image_descriptions :: "page \<Rightarrow> string list" where
  "get_image_descriptions p = (case image_descriptions p of None \<Rightarrow> [] | Some ds \<Rightarrow> ds)"

text \<open>
  The inner loop of \<open>chunk_document\<close> over the window starts \<open>i\<close> of one page; the
  state is the list \<open>chunks\<close> and the counter \<open>chunk_id\<close>.
\<close>

fun chunk_page :: "config \<Rightarrow> page \<Rightarrow> int list \<Rightarrow> chunk list \<times> int \<Rightarrow> chunk list \<times> int" where
  "chunk_page cfg p [] (chunks, cid) = (chunks, cid)"
| "chunk_page cfg p (i # starts) (chunks, cid) =
     chunk_page cfg p starts
       (chunks @ [\<lparr> chunk_id = cid,
                    chunk_page_number = page_number p,
                    content = py_slice (full_content p) i (i + CHUNK_SIZE cfg),
                    has_images = Some (0 < length (get_image_descriptions p)) \<rparr>],
        cid + 1)"

text \<open>The outer loop over the pages; the \<open>range\<close> of a page is built when its turn comes.\<close>

fun chunk_pages :: "config \<Rightarrow> page list \<Rightarrow> chunk list \<times> int \<Rightarrow> error + chunk list \<times> int" where
  "chunk_pages cfg [] st = Inr st"
| "chunk_pages cfg (p # ps) st =
     (case py_range 0 (int (length (full_content p))) (CHUNK_SIZE cfg - CHUNK_OVERLAP cfg) of
        Inl e \<Rightarrow> Inl e
      | Inr starts \<Rightarrow> chunk_pages cfg ps (chunk_page cfg p starts st))"

definition chunk_document :: "config \<Rightarrow> page list \<Rightarrow> error + chunk list" where
  "chunk_document cfg processed_pages =
     (case chunk_pages cfg processed_pages ([], 0) of
        Inl e \<Rightarrow> Inl e
      | Inr (chunks, cid) \<Rightarrow> Inr chunks)"

text \<open>
  Two names for the loop's parts, used to state what \<open>chunk_document\<close> emits for one
  page: the window starts that \<open>range\<close> yields for the page (none when \<open>range\<close> raises),
  and the chunks the inner loop appends for it when the counter stands at \<open>cid\<close>.
\<close>

definition page_starts :: "config \<Rightarrow> page \<Rightarrow> int list" where
  "page_starts cfg p =
     (case py_range 0 (int (length (full_content p))) (CHUNK_SIZE cfg - CHUNK_OVERLAP cfg) of
        Inl e \<Rightarrow> []
      | Inr starts \<Rightarrow> starts)"

definition page_chunks :: "config \<Rightarrow> page \<Rightarrow> int \<Rightarrow> chunk list" where
  "page_chunks cfg p cid = fst (chunk_page cfg p (page_starts cfg p) ([], cid))"

text \<open>
  The specification's reading of chunking, written from its words and compared with the
  code below: the chunk count \<open>ceil((L - O) / (C - O))\<close>, or 1 if \<open>L \<le> C\<close>; and the
  reassembly of a page from its chunk contents, the first \<open>O\<close> characters removed from
  every chunk but the first.
\<close>

definition spec_chunk_count :: "int \<Rightarrow> int \<Rightarrow> int \<Rightarrow> int" where
  "spec_chunk_count L C ov =
     (if L \<le> C then 1 else \<lceil>real_of_int (L - ov) / real_of_int (C - ov)\<rceil>)"

definition remove_overlaps :: "int \<Rightarrow> string list \<Rightarrow> string" where
  "remove_overlaps ov cs =
     (case cs of [] \<Rightarrow> [] | c # rest \<Rightarrow> c @ concat (map (drop (nat ov)) rest))"

text \<open>
  The specification's reading of \<open>has_images\<close>: the page had at least one non-empty
  image description.
\<close>

definition has_nonempty_description :: "page \<Rightarrow> bool" where
  "has_nonempty_description p = list_ex (\<lambda>d. d \<noteq> []) (get_image_descriptions p)"

section \<open>The external collaborators and the observable effects\<close>

text \<open>
  Records as the vector index holds them. A metadata dict is written by
  \<open>upsert_documents\<close> with its three keys and read back by \<open>search\<close> and
  \<open>generate_response\<close> with \<open>.get(key, default)\<close>, so every key may be absent.
\<close>

record metadata =
  md_page_number :: "int option"
  md_has_images :: "bool option"
  md_content :: "string option"

definition empty_metadata :: metadata where
  "empty_metadata = \<lparr> md_page_number = None, md_has_images = None, md_content = None \<rparr>"

record vector_record =
  vec_id :: string
  vec_values :: "float list"
  vec_metadata :: metadata

text \<open>A match of the index's query response; \<open>match.metadata\<close> may be \<open>None\<close>.\<close>

record match =
  match_id :: string
  match_score :: float
  match_metadata :: "metadata option"

text \<open>One role-tagged turn of the \<open>contents\<close> given to the language model.\<close>

record turn =
  role :: string
  parts :: "string list"

text \<open>
  The environment fixes how the collaborators answer: the embedding service (its result
  dict has an \<open>embedding\<close> key or not), the draws of \<open>random.random()\<close> in order, the
  index's \<open>upsert\<close> and \<open>query\<close>, whether the handle \<open>self.gemini_model\<close> is there,
  the text of the language model's response for given \<open>contents\<close>, the image library
  and vision model behind one description request, and the file operations that may
  raise.
\<close>

record env =
  embed_content :: "string \<Rightarrow> float list option outcome"
  random_random :: "nat \<Rightarrow> float"
  index_upsert :: "vector_record list \<Rightarrow> unit outcome"
  index_query :: "float list \<Rightarrow> int \<Rightarrow> (string \<times> string) list option \<Rightarrow> match list outcome"
  gemini_model :: bool
  generate_content :: "turn list \<Rightarrow> string outcome"
  describe_image :: "bytes \<Rightarrow> string outcome"
  extract_image :: "int \<Rightarrow> bytes outcome"
  open_raises :: "string \<Rightarrow> bool"
  write_raises :: "string \<Rightarrow> bool"
  remove_raises :: "string \<Rightarrow> bool"

text \<open>
  The effects a run leaves behind: how many random draws were consumed, every batch
  handed to \<open>index.upsert\<close> and every \<open>contents\<close> handed to the language model, in
  call order, and the files on disk.
\<close>

record world =
  draws :: nat
  upsert_calls :: "vector_record list list"
  model_calls :: "turn list list"
  files :: "string \<rightharpoonup> bytes"

section \<open>Document processor: image descriptions (document\_processor.py)\<close>

text \<open>
  \<open>_get_image_description\<close>: without a model handle the fixed sentinel; otherwise the
  \<open>try\<close> block opens the file, prepares the image and asks the model, an empty
  response text raises \<open>ValueError\<close>, and the handler turns every exception into an
  error-tagged string. The function returns a string on every path.
\<close>

definition get_image_description_try :: "env \<Rightarrow> world \<Rightarrow> string \<Rightarrow> error + string" where
  "get_image_description_try e w image_path =
     (case files w image_path of
        None \<Rightarrow> Inl (ExternalError (''[Errno 2] No such file or directory: ''
                                   @ CHR 0x27 # image_path @ [CHR 0x27]))
      | Some img \<Rightarrow>
          (case describe_image e img of
             Raises m \<Rightarrow> Inl (ExternalError m)
           | Returns response_text \<Rightarrow>
               if response_text = [] then Inl (ValueError ''Empty response from Gemini model'')
               else Inr (py_strip response_text)))"

definition get_image_description :: "env \<Rightarrow> world \<Rightarrow> string \<Rightarrow> string" where
  "get_image_description e w image_path =
     (if \<not> gemini_model e then ''[Image processing not available]''
      else case get_image_description_try e w image_path of
             Inr description \<Rightarrow> description
           | Inl ex \<Rightarrow> ''[Image description error: '' @ str_error ex @ '']'')"

text \<open>
  \<open>os.path.join(a, b)\<close> for two components: an absolute \<open>b\<close> stands alone; a separator
  is inserted unless \<open>a\<close> is empty or already ends with one.
\<close>

definition py_path_join :: "string \<Rightarrow> string \<Rightarrow> string" where
  "py_path_join a b =
     (if take 1 b = ''/'' then b
      else if a = [] \<or> last a = CHR ''/'' then a @ b
      else a @ ''/'' @ b)"

text \<open>\<open>os.path.join(IMAGES_DIR, f"page_{page_num + 1}_img_{img_index + 1}.png")\<close>\<close>

definition image_path_of :: "config \<Rightarrow> int \<Rightarrow> nat \<Rightarrow> string" where
  "image_path_of cfg page_num img_index =
     py_path_join (IMAGES_DIR cfg)
       (''page_'' @ str_int (page_num + 1) @ ''_img_'' @ str_int (int img_index + 1) @ ''.png'')"

text \<open>
  The \<open>try\<close> block of one loop iteration of \<open>_extract_and_describe_images\<close>, for the
  image with reference \<open>xref\<close> at position \<open>img_index\<close>. Effects made before a raise
  stay: \<open>open(path, "wb")\<close> creates the file before \<open>write\<close> can fail, and the
  description is appended before \<open>os.remove\<close> can fail.
\<close>

definition image_step_try ::
  "config \<Rightarrow> env \<Rightarrow> int \<Rightarrow> nat \<Rightarrow> int \<Rightarrow> string list \<times> world
     \<Rightarrow> (error + unit) \<times> string list \<times> world" where
  "image_step_try cfg e page_num img_index xref st =
     (case st of (descriptions, w) \<Rightarrow>
        (case extract_image e xref of
           Raises m \<Rightarrow> (Inl (ExternalError m), descriptions, w)
         | Returns image_bytes \<Rightarrow>
             let image_path = image_path_of cfg page_num img_index in
             if open_raises e image_path then (Inl (ExternalError ''open failed''), descriptions, w)
             else if write_raises e image_path
               then (Inl (ExternalError ''write failed''), descriptions,
                     w \<lparr> files := (files w)(image_path \<mapsto> []) \<rparr>)
             else
               let w1 = w \<lparr> files := (files w)(image_path \<mapsto> image_bytes) \<rparr>;
                   description = get_image_description e w1 image_path;
                   descriptions1 = descriptions @ [description]
               in if remove_raises e image_path \<or> files w1 image_path = None
                    then (Inl (ExternalError ''remove failed''), descriptions1, w1)
                    else (Inr (), descriptions1,
                          w1 \<lparr> files := (files w1)(image_path := None) \<rparr>)))"

text \<open>
  One iteration: the handler prints and continues, so only the state goes on to the next
  image.
\<close>

definition image_step ::
  "config \<Rightarrow> env \<Rightarrow> int \<Rightarrow> nat \<Rightarrow> int \<Rightarrow> string list \<times> world \<Rightarrow> string list \<times> world" where
  "image_step cfg e page_num img_index xref st = snd (image_step_try cfg e page_num img_index xref st)"

text \<open>The loop over \<open>enumerate(image_list)\<close>, from position \<open>img_index\<close> on.\<close>

fun image_loop ::
  "config \<Rightarrow> env \<Rightarrow> int \<Rightarrow> nat \<Rightarrow> int list \<Rightarrow> string list \<times> world \<Rightarrow> string list \<times> world" where
  "image_loop cfg e page_num img_index [] st = st"
| "image_loop cfg e page_num img_index (xref # rest) st =
     image_loop cfg e page_num (Suc img_index) rest (image_step cfg e page_num img_index xref st)"

text \<open>
  \<open>_extract_and_describe_images\<close>, given the references \<open>image_list\<close> that
  \<open>page.get_images\<close> returned for the page.
\<close>

definition extract_and_describe_images ::
  "config \<Rightarrow> env \<Rightarrow> world \<Rightarrow> int list \<Rightarrow> int \<Rightarrow> string list \<times> world" where
  "extract_and_describe_images cfg e w image_list page_num =
     (if image_list = [] then ([], w)
      else image_loop cfg e page_num 0 image_list ([], w))"

section \<open>Vector store (vector\_store.py)\<close>

text \<open>
  \<open>get_embedding\<close>. The \<open>try\<close> block truncates the text to 10000 characters, asks the
  embedding service and raises \<open>ValueError\<close> when the result has no \<open>embedding\<close> key.
  The handler answers every exception with \<open>GEMINI_EMBEDDING_DIM\<close> fresh draws of
  \<open>random.random()\<close>.
\<close>

definition get_embedding_try :: "env \<Rightarrow> string \<Rightarrow> error + float list" where
  "get_embedding_try e txt =
     (let txt1 = (if 10000 < length txt then py_slice_to txt 10000 else txt) in
      case embed_content e txt1 of
        Raises m \<Rightarrow> Inl (ExternalError m)
      | Returns result \<Rightarrow>
          (case result of
             Some embedding \<Rightarrow> Inr embedding
           | None \<Rightarrow> Inl (ValueError ''No embedding found in the response'')))"

definition random_vector :: "config \<Rightarrow> env \<Rightarrow> world \<Rightarrow> float list \<times> world" where
  "random_vector cfg e w =
     (let n = nat (GEMINI_EMBEDDING_DIM cfg) in
      (map (random_random e) [draws w ..< draws w + n], w \<lparr> draws := draws w + n \<rparr>))"

definition get_embedding :: "config \<Rightarrow> env \<Rightarrow> world \<Rightarrow> string \<Rightarrow> (error + float list) \<times> world" where
  "get_embedding cfg e w txt =
     (case get_embedding_try e txt of
        Inr embedding \<Rightarrow> (Inr embedding, w)
      | Inl ex \<Rightarrow> (case random_vector cfg e w of (v, w1) \<Rightarrow> (Inr v, w1)))"





text \<open>
  \<open>search\<close>. The query embedding is computed before the \<open>try\<close> block; the block asks
  the index and formats the matches; the handler returns the empty list.
\<close>

record search_result =
  sr_id :: string
  sr_score :: float
  sr_metadata :: metadata
  sr_content :: string

definition format_match :: "match \<Rightarrow> search_result" where
  "format_match m =
     (let md = (case match_metadata m of None \<Rightarrow> empty_metadata | Some d \<Rightarrow> d) in
      \<lparr> sr_id = match_id m,
        sr_score = match_score m,
        sr_metadata = md,
        sr_content = (case md_content md of None \<Rightarrow> [] | Some c \<Rightarrow> c) \<rparr>)"

definition search_try ::
  "env \<Rightarrow> float list \<Rightarrow> int \<Rightarrow> (string \<times> string) list option \<Rightarrow> error + search_result list" where
  "search_try e query_embedding top_k filter_conditions =
     (case index_query e query_embedding top_k filter_conditions of
        Raises m \<Rightarrow> Inl (ExternalError m)
      | Returns matches \<Rightarrow> Inr (map format_match matches))"

definition search ::
  "config \<Rightarrow> env \<Rightarrow> world \<Rightarrow> string \<Rightarrow> int \<Rightarrow> (string \<times> string) list option
     \<Rightarrow> (error + search_result list) \<times> world" where
  "search cfg e w query top_k filter_conditions =
     (case get_embedding cfg e w query of
        (Inl ex, w1) \<Rightarrow> (Inl ex, w1)
      | (Inr query_embedding, w1) \<Rightarrow>
          (case search_try e query_embedding top_k filter_conditions of
             Inr formatted_results \<Rightarrow> (Inr formatted_results, w1)
           | Inl ex \<Rightarrow> (Inr [], w1)))"

section \<open>Query processor (query\_processor.py)\<close>

text \<open>
  The page of a source is \<open>metadata.get('page_number', 'N/A')\<close>: the stored number, or
  the string \<open>'N/A'\<close>.
\<close>

datatype page_label = PageNumber int | PageText string

fun str_page_label :: "page_label \<Rightarrow> string" where
  "str_page_label (PageNumber n) = str_int n"
| "str_page_label (PageText t) = t"

definition get_page_label :: "metadata \<Rightarrow> page_label" where
  "get_page_label md = (case md_page_number md of None \<Rightarrow> PageText ''N/A'' | Some n \<Rightarrow> PageNumber n)"

record source =
  src_page :: page_label
  src_content :: string
  src_has_images :: bool

text \<open>
  The returned dict, key by key in the order of the dict literal. A key that a
  \<open>return\<close> does not write is not in the list.
\<close>

datatype response_value = Answer string | Sources "source list" | Context "string list"

type_synonym response = "(string \<times> response_value) list"

definition has_key :: "response \<Rightarrow> string \<Rightarrow> bool" where
  "has_key r k = (map_of r k \<noteq> None)"

record message =
  msg_role :: string
  msg_content :: string

text \<open>Step 2: the loop over \<open>enumerate(search_results)\<close>, from position \<open>i\<close> on.\<close>

fun format_context ::
  "nat \<Rightarrow> search_result list \<Rightarrow> string list \<times> source list \<Rightarrow> string list \<times> source list" where
  "format_context i [] st = st"
| "format_context i (result # rest) (context_parts, sources) =
     (let source_info = ''[Source '' @ str_int (int i + 1) @ '', Page ''
                          @ str_page_label (get_page_label (sr_metadata result)) @ '']''
      in format_context (Suc i) rest
           (context_parts @ [source_info @ nl @ sr_content result],
            sources @ [\<lparr> src_page = get_page_label (sr_metadata result),
                          src_content = py_slice_to (sr_content result) 500 @ ''...'',
                          src_has_images =
                            (case md_has_images (sr_metadata result) of
                               None \<Rightarrow> False | Some b \<Rightarrow> b) \<rparr>]))"

text \<open>Step 3: the two messages; the continuation lines carry sixteen spaces of indentation.\<close>

definition indent :: string where
  "indent = replicate 16 (CHR '' '')"

definition system_instruction :: string where
  "system_instruction =
     ''You are a helpful assistant that answers questions based on the provided context. '' @ nl
     @ indent @ ''If the context doesn't contain the answer, say you don't know. '' @ nl
     @ indent @ ''Be concise and accurate in your responses.''"

definition user_prompt :: "string \<Rightarrow> string \<Rightarrow> string" where
  "user_prompt context query =
     ''Context:'' @ nl
     @ indent @ context @ nl
     @ indent @ nl
     @ indent @ ''Question: '' @ query @ nl
     @ indent @ nl
     @ indent @ ''Answer the question based on the context above. If the context doesn't contain the answer, say you don't know.''"

definition vision_instruction :: string where
  "vision_instruction =
     '' When describing visual content, be sure to include details from the image descriptions provided in the context.''"

text \<open>
  Step 4: with \<open>use_vision\<close> and a source with images, the instruction is appended to the
  content of \<open>messages[0]\<close>.
\<close>

definition build_messages :: "string \<Rightarrow> string \<Rightarrow> bool \<Rightarrow> source list \<Rightarrow> message list" where
  "build_messages context query use_vision sources =
     (let messages = [\<lparr> msg_role = ''system'', msg_content = system_instruction \<rparr>,
                      \<lparr> msg_role = ''user'', msg_content = user_prompt context query \<rparr>]
      in if use_vision \<and> list_ex src_has_images sources
         then (case messages of
                 [] \<Rightarrow> []
               | m # ms \<Rightarrow> m \<lparr> msg_content := msg_content m @ vision_instruction \<rparr> # ms)
         else messages)"

text \<open>
  Step 5, first half of the \<open>try\<close> block: the list \<open>formatted_messages\<close>, with the system
  message as a priming user turn answered by a model turn, then the user turn.
\<close>

definition format_messages :: "message list \<Rightarrow> turn list" where
  "format_messages messages =
     (case find (\<lambda>m. msg_role m = ''system'') messages of
        None \<Rightarrow> []
      | Some system_message \<Rightarrow>
          [\<lparr> role = ''user'', parts = [msg_content system_message] \<rparr>,
           \<lparr> role = ''model'', parts = [''I understand and will assist with your request.''] \<rparr>])
     @ (case find (\<lambda>m. msg_role m = ''user'') messages of
          None \<Rightarrow> []
        | Some user_message \<Rightarrow> [\<lparr> role = ''user'', parts = [msg_content user_message] \<rparr>])"

text \<open>
  Second half of the \<open>try\<close> block: the call of \<open>generate_content\<close>. Its \<open>contents\<close>
  argument is the dict built from \<open>user_message\<close> alone, one turn; \<open>formatted_messages\<close>
  is not an argument of the call. The call is recorded in \<open>model_calls\<close>.
\<close>

definition ask_model :: "env \<Rightarrow> world \<Rightarrow> message list \<Rightarrow> (error + string) \<times> world" where
  "ask_model e w messages =
     (let formatted_messages = format_messages messages in
      case find (\<lambda>m. msg_role m = ''user'') messages of
        None \<Rightarrow> (Inl (ExternalError (CHR 0x27 # ''NoneType'' @ CHR 0x27 # '' object is not subscriptable'')), w)
      | Some user_message \<Rightarrow>
          let contents = [\<lparr> role = ''user'', parts = [msg_content user_message] \<rparr>];
              w1 = w \<lparr> model_calls := model_calls w @ [contents] \<rparr>
          in (case generate_content e contents of
                Raises m \<Rightarrow> (Inl (ExternalError m), w1)
              | Returns response_text \<Rightarrow>
                  if response_text = []
                  then (Inl (ValueError ''Empty response from Gemini model''), w1)
                  else (Inr (py_strip response_text), w1)))"

text \<open>The handler of the \<open>try\<close> block: the answer chosen from the words of the exception.\<close>

definition error_answer :: "error \<Rightarrow> string" where
  "error_answer ex =
     (let error_msg = py_lower (str_error ex) in
      if py_in ''quota'' error_msg
      then ''I've reached my API quota limit. Please check your Google AI Studio account for usage limits.''
      else if py_in ''access'' error_msg \<or> py_in ''permission'' error_msg
      then ''I'm having trouble accessing the AI model. Please verify your API key and permissions.''
      else ''I'm sor'' @ ''ry, I encountered an error while generating a response. The error was: ''
           @ str_error ex)"

definition no_information_answer :: string where
  "no_information_answer = ''I couldn't find any relevant information to answer your question.''"

definition model_unavailable_answer :: string where
  "model_unavailable_answer =
     ''Error: Gemini model is not available. Please check your API key and model configuration.''"

definition generate_response ::
  "config \<Rightarrow> env \<Rightarrow> world \<Rightarrow> string \<Rightarrow> bool \<Rightarrow> (error + response) \<times> world" where
  "generate_response cfg e w query use_vision =
     (case search cfg e w query 3 None of
        (Inl ex, w1) \<Rightarrow> (Inl ex, w1)
      | (Inr search_results, w1) \<Rightarrow>
          if search_results = []
          then (Inr [(''answer'', Answer no_information_answer),
                     (''sources'', Sources []),
                     (''context'', Context [])], w1)
          else
            (case format_context 0 search_results ([], []) of (context_parts, sources) \<Rightarrow>
               let context = py_join (nl @ nl) context_parts;
                   messages = build_messages context query use_vision sources
               in if \<not> gemini_model e
                  then (Inr [(''answer'', Answer model_unavailable_answer),
                             (''sources'', Sources sources)], w1)
                  else
                    (case ask_model e w1 messages of (r, w2) \<Rightarrow>
                       let answer = (case r of Inr a \<Rightarrow> a | Inl ex \<Rightarrow> error_answer ex)
                       in (Inr [(''answer'', Answer answer),
                                (''sources'', Sources sources),
                                (''context'', Context context_parts)], w2))))"

text \<open>
  The page dict that \<open>process_pdf\<close> builds for the page at position \<open>page_num\<close>, from its
  text and the descriptions of its images.
\<close>

definition make_page :: "int \<Rightarrow> string \<Rightarrow> string list \<Rightarrow> page" where
  "make_page page_num txt descriptions =
     \<lparr> page_number = page_num + 1,
       page_text = txt,
       image_descriptions = Some descriptions,
       full_content =
         ''Page '' @ str_int (page_num + 1) @ nl @ nl @ txt
         @ (if descriptions \<noteq> []
            then nl @ nl @ ''Visual Content:'' @ nl @ py_join nl descriptions
            else []) \<rparr>"

section \<open>Concrete inputs\<close>

text \<open>A configuration with windows of four characters overlapping by one.\<close>

definition small_config :: config where
  "small_config = Config \<lparr> CHUNK_SIZE := 4, CHUNK_OVERLAP := 1 \<rparr>"

definition page_abcd :: page where
  "page_abcd = \<lparr> page_number = 1, page_text = ''abcd'', image_descriptions = Some [],
                 full_content = ''abcd'' \<rparr>"

definition page_efghijk :: page where
  "page_efghijk = \<lparr> page_number = 2, page_text = ''efghijk'',
                    image_descriptions = Some [''a chart''], full_content = ''efghijk'' \<rparr>"

text \<open>
  Collaborators that all answer: the embedding service with a two-component vector, the
  index with one match from page 4 that has images, the language model and the vision
  model with a short text.
\<close>

definition match_one :: match where
  "match_one = \<lparr> match_id = ''7'', match_score = 1,
                 match_metadata = Some \<lparr> md_page_number = Some 4, md_has_images = Some True,
                                         md_content = Some ''Sales rose.'' \<rparr> \<rparr>"

definition env_ok :: env where
  "env_ok = \<lparr> embed_content = (\<lambda>t. Returns (Some [1, 0])),
              random_random = (\<lambda>k. 0),
              index_upsert = (\<lambda>vs. Returns ()),
              index_query = (\<lambda>v k f. Returns [match_one]),
              gemini_model = True,
              generate_content = (\<lambda>c. Returns '' Sales rose. ''),
              describe_image = (\<lambda>b. Returns ''A bar chart.''),
              extract_image = (\<lambda>x. Returns ''PNG''),
              open_raises = (\<lambda>p. False),
              write_raises = (\<lambda>p. False),
              remove_raises = (\<lambda>p. False) \<rparr>"

definition world_empty :: world where
  "world_empty = \<lparr> draws = 0, upsert_calls = [], model_calls = [], files = Map.empty \<rparr>"

text \<open>The embedding service is down.\<close>

definition env_embed_down :: env where
  "env_embed_down = env_ok \<lparr> embed_content := (\<lambda>t. Raises ''503 service unavailable'') \<rparr>"

text \<open>The index refuses the query.\<close>

definition env_index_down :: env where
  "env_index_down = env_ok \<lparr> index_query := (\<lambda>v k f. Raises ''connection reset'') \<rparr>"

text \<open>The index answers with no match.\<close>

definition env_no_match :: env where
  "env_no_match = env_ok \<lparr> index_query := (\<lambda>v k f. Returns []) \<rparr>"

section \<open>The records an upsert is expected to send\<close>



section \<open>More concrete inputs\<close>








text \<open>The vision model fails on every image.\<close>

definition env_vision_down :: env where
  "env_vision_down = env_ok \<lparr> describe_image := (\<lambda>b. Raises ''429 quota exceeded'') \<rparr>"

text \<open>The handle \<open>self.gemini_model\<close> is missing.\<close>

definition env_no_handle :: env where
  "env_no_handle = env_ok \<lparr> gemini_model := False \<rparr>"

text \<open>Writing the first image's temporary file fails; removing it fails.\<close>

definition env_write_fails :: env where
  "env_write_fails =
     env_ok \<lparr> write_raises := (\<lambda>p. p = ''data/images/page_1_img_1.png'') \<rparr>"

definition env_remove_fails :: env where
  "env_remove_fails =
     env_ok \<lparr> remove_raises := (\<lambda>p. p = ''data/images/page_1_img_1.png'') \<rparr>"

section \<open>Chunking: the shape of the output\<close>

lemma chunk_page_append:
  "chunk_page cfg p starts (chunks, cid) =
     (chunks @ fst (chunk_page cfg p starts ([], cid)), cid + int (length starts))"
proof (induction starts arbitrary: chunks cid)
  case Nil show ?case by simp
next
  case (Cons i starts)
  show ?case
    apply (simp only: chunk_page.simps)
    apply (subst Cons.IH)
    apply (subst (2) Cons.IH)
    apply simp
    done
qed

lemma page_starts_up:
  "CHUNK_OVERLAP cfg < CHUNK_SIZE cfg \<Longrightarrow>
   page_starts cfg p =
     py_range_up 0 (int (length (full_content p))) (CHUNK_SIZE cfg - CHUNK_OVERLAP cfg)"
  by (simp add: page_starts_def py_range_def)

lemma chunk_pages_step:
  assumes "CHUNK_OVERLAP cfg \<noteq> CHUNK_SIZE cfg"
  shows "chunk_pages cfg (p # ps) (chunks, cid) =
           chunk_pages cfg ps
             (chunks @ page_chunks cfg p cid, cid + int (length (page_starts cfg p)))"
proof -
  have "py_range 0 (int (length (full_content p))) (CHUNK_SIZE cfg - CHUNK_OVERLAP cfg)
          = Inr (page_starts cfg p)"
    using assms by (simp add: py_range_def page_starts_def)
  then show ?thesis
    using chunk_page_append [of cfg p "page_starts cfg p" chunks cid]
    by (simp add: page_chunks_def)
qed

lemma chunk_pages_raise:
  assumes "CHUNK_OVERLAP cfg = CHUNK_SIZE cfg"
  shows "chunk_pages cfg (p # ps) st = Inl (ValueError ''range() arg 3 must not be zero'')"
  using assms by (simp add: py_range_def)

lemma chunk_pages_extend:
  assumes "CHUNK_OVERLAP cfg \<noteq> CHUNK_SIZE cfg"
  shows "\<exists>ds cid'. chunk_pages cfg ps (chunks, cid) = Inr (chunks @ ds, cid')"
proof (induction ps arbitrary: chunks cid)
  case Nil show ?case by simp
next
  case (Cons p ps)
  obtain ds cid' where
    "chunk_pages cfg ps (chunks @ page_chunks cfg p cid, cid + int (length (page_starts cfg p)))
       = Inr ((chunks @ page_chunks cfg p cid) @ ds, cid')"
    using Cons.IH by blast
  then show ?case
    by (subst chunk_pages_step [OF assms]) auto
qed

lemma chunk_pages_app:
  "chunk_pages cfg (ps @ qs) st =
     (case chunk_pages cfg ps st of Inl e \<Rightarrow> Inl e | Inr st' \<Rightarrow> chunk_pages cfg qs st')"
  by (induction ps arbitrary: st) (auto split: sum.splits)

lemma chunk_document_decomp:
  assumes "CHUNK_OVERLAP cfg \<noteq> CHUNK_SIZE cfg"
  shows "\<exists>cs cid ds. chunk_document cfg ps = Inr cs
           \<and> chunk_document cfg (ps @ [p]) = Inr (cs @ page_chunks cfg p cid)
           \<and> chunk_document cfg (ps @ p # qs) = Inr (cs @ page_chunks cfg p cid @ ds)"
proof -
  obtain cs cid where a: "chunk_pages cfg ps ([], 0) = Inr (cs, cid)"
    using chunk_pages_extend [OF assms, of ps "[]" 0] by auto
  obtain ds cid' where c:
    "chunk_pages cfg qs (cs @ page_chunks cfg p cid, cid + int (length (page_starts cfg p)))
       = Inr ((cs @ page_chunks cfg p cid) @ ds, cid')"
    using chunk_pages_extend [OF assms] by blast
  have d: "chunk_pages cfg (ps @ [p]) ([], 0)
             = Inr (cs @ page_chunks cfg p cid, cid + int (length (page_starts cfg p)))"
    by (simp add: chunk_pages_app a chunk_pages_step [OF assms] del: chunk_pages.simps(2))
  have e: "chunk_pages cfg (ps @ p # qs) ([], 0) = Inr (cs @ page_chunks cfg p cid @ ds, cid')"
    by (simp add: chunk_pages_app a chunk_pages_step [OF assms] c del: chunk_pages.simps(2))
  show ?thesis
    using a d e by (auto simp add: chunk_document_def)
qed

lemma chunk_document_raise:
  assumes "CHUNK_OVERLAP cfg = CHUNK_SIZE cfg"
  shows "chunk_document cfg (ps @ p # qs) = Inl (ValueError ''range() arg 3 must not be zero'')"
proof -
  have "chunk_pages cfg (ps @ p # qs) st = Inl (ValueError ''range() arg 3 must not be zero'')"
    for st
    by (induction ps arbitrary: st) (simp_all add: assms py_range_def)
  then show ?thesis by (simp add: chunk_document_def)
qed

lemma chunk_page_flags:
  "\<forall>c \<in> set (fst (chunk_page cfg p starts (chunks, cid))).
      c \<in> set chunks \<or>
      (chunk_page_number c = page_number p
       \<and> has_images c = Some (get_image_descriptions p \<noteq> []))"
proof (induction starts arbitrary: chunks cid)
  case Nil show ?case by simp
next
  case (Cons i starts)
  show ?case
    using Cons.IH [of "chunks @ [\<lparr> chunk_id = cid, chunk_page_number = page_number p,
                    content = py_slice (full_content p) i (i + CHUNK_SIZE cfg),
                    has_images = Some (0 < length (get_image_descriptions p)) \<rparr>]" "cid + 1"]
    by auto
qed

lemma page_chunks_flags:
  "c \<in> set (page_chunks cfg p cid) \<Longrightarrow>
     chunk_page_number c = page_number p
     \<and> has_images c = Some (get_image_descriptions p \<noteq> [])"
  using chunk_page_flags [of cfg p "page_starts cfg p" "[]" cid]
  by (auto simp add: page_chunks_def)

lemma chunk_page_contents:
  "map content (fst (chunk_page cfg p starts ([], cid))) =
     map (\<lambda>i. py_slice (full_content p) i (i + CHUNK_SIZE cfg)) starts"
proof (induction starts arbitrary: cid)
  case Nil show ?case by simp
next
  case (Cons i starts)
  show ?case
    apply (simp only: chunk_page.simps)
    apply (subst chunk_page_append)
    apply (simp add: Cons.IH)
    done
qed

lemma page_chunks_length: "length (page_chunks cfg p cid) = length (page_starts cfg p)"
  using arg_cong [OF chunk_page_contents, of length cfg p "page_starts cfg p" cid]
  by (simp add: page_chunks_def)

lemma py_slice_window:
  assumes "0 \<le> i" "0 \<le> c"
  shows "py_slice xs i (i + c) = take (nat c) (drop (nat i) xs)"
proof (cases "nat i < length xs")
  case True
  then show ?thesis using assms
    by (auto simp add: py_slice_def py_bound_def Let_def min_def nat_add_distrib)
next
  case False
  then show ?thesis using assms
    by (simp add: py_slice_def py_bound_def Let_def min_def)
qed

lemma windows_tail:
  assumes "0 \<le> ov"
  shows "0 < step \<Longrightarrow> 0 \<le> i \<Longrightarrow>
         concat (map (\<lambda>j. drop (nat ov) (py_slice xs j (j + (step + ov))))
                     (py_range_up i (int (length xs)) step))
           = drop (nat i + nat ov) xs"
proof (induction i "int (length xs)" step rule: py_range_up.induct)
  case (1 i step)
  note pos = \<open>0 < step\<close> and nonneg = \<open>0 \<le> i\<close>
  show ?case
  proof (cases "i < int (length xs)")
    case False
    then show ?thesis using nonneg by (subst py_range_up.simps) simp
  next
    case True
    have ih: "concat (map (\<lambda>j. drop (nat ov) (py_slice xs j (j + (step + ov))))
                (py_range_up (i + step) (int (length xs)) step))
              = drop (nat (i + step) + nat ov) xs"
    proof (rule 1(1))
      show "0 < step \<and> i < int (length xs)" using True pos by simp
      show "0 < step" by (rule pos)
      show "0 \<le> i + step" using nonneg pos by simp
    qed
    have w: "drop (nat ov) (py_slice xs i (i + (step + ov)))
               = take (nat step) (drop (nat i + nat ov) xs)"
      using nonneg pos assms
      by (simp add: py_slice_window drop_take nat_add_distrib add.commute)
    have "concat (map (\<lambda>j. drop (nat ov) (py_slice xs j (j + (step + ov))))
                (py_range_up i (int (length xs)) step))
          = take (nat step) (drop (nat i + nat ov) xs) @ drop (nat (i + step) + nat ov) xs"
      using True pos by (subst py_range_up.simps) (simp add: ih w)
    also have "\<dots> = drop (nat i + nat ov) xs"
      using append_take_drop_id [of "nat step" "drop (nat i + nat ov) xs"] nonneg pos
      by (simp add: nat_add_distrib add.commute add.left_commute)
    finally show ?thesis .
  qed
qed

lemma remove_overlaps_windows:
  assumes "0 \<le> ov" "0 < step"
  shows "remove_overlaps ov (map (\<lambda>j. py_slice xs j (j + (step + ov)))
                                 (py_range_up 0 (int (length xs)) step)) = xs"
proof (cases xs)
  case Nil
  then show ?thesis by (subst py_range_up.simps) (simp add: remove_overlaps_def)
next
  case (Cons a as)
  have t: "concat (map (\<lambda>j. drop (nat ov) (py_slice xs j (j + (step + ov))))
                (py_range_up (0 + step) (int (length xs)) step))
              = drop (nat (0 + step) + nat ov) xs"
    using windows_tail [OF assms(1), of step "0 + step" xs] assms by simp
  have "py_range_up 0 (int (length xs)) step = 0 # py_range_up (0 + step) (int (length xs)) step"
    using Cons assms by (subst py_range_up.simps) simp
  then show ?thesis
    using t assms
    by (simp add: remove_overlaps_def py_slice_window [of 0, simplified] o_def
        nat_add_distrib add.commute)
qed

lemma py_range_up_length:
  "0 < step \<Longrightarrow> length (py_range_up i stop step) = nat \<lceil>(of_int (stop - i) :: real) / of_int step\<rceil>"
proof (induction i stop step rule: py_range_up.induct)
  case (1 i stop step)
  show ?case
  proof (cases "i < stop")
    case False
    then have "(of_int (stop - i) :: real) / of_int step \<le> 0"
      using 1(2) by (simp add: divide_le_0_iff)
    then have "\<lceil>(of_int (stop - i) :: real) / of_int step\<rceil> \<le> 0"
      by (simp add: ceiling_le_iff)
    then show ?thesis using False by (subst py_range_up.simps) simp
  next
    case True
    have ih: "length (py_range_up (i + step) stop step) =
                nat \<lceil>(of_int (stop - (i + step)) :: real) / of_int step\<rceil>"
      using 1(1) 1(2) True by simp
    have eq: "(of_int (stop - (i + step)) :: real) / of_int step
              = of_int (stop - i) / of_int step - 1"
      using 1(2) by (simp add: field_simps)
    have pos: "0 < (of_int (stop - i) :: real) / of_int step"
      using True 1(2) by simp
    then have cpos: "0 < \<lceil>(of_int (stop - i) :: real) / of_int step\<rceil>"
      by (simp add: less_ceiling_iff)
    have "length (py_range_up i stop step) = Suc (length (py_range_up (i + step) stop step))"
      using True 1(2) by (subst py_range_up.simps) simp
    also have "\<dots> = Suc (nat (\<lceil>(of_int (stop - i) :: real) / of_int step\<rceil> - 1))"
      by (simp only: ih eq ceiling_diff_one)
    also have "\<dots> = nat \<lceil>(of_int (stop - i) :: real) / of_int step\<rceil>"
      using cpos by linarith
    finally show ?thesis .
  qed
qed

lemma page_chunks_count:
  assumes "CHUNK_OVERLAP cfg < CHUNK_SIZE cfg"
  shows "int (length (page_chunks cfg p cid)) =
           \<lceil>real (length (full_content p)) / real_of_int (CHUNK_SIZE cfg - CHUNK_OVERLAP cfg)\<rceil>"
proof -
  have "0 \<le> real (length (full_content p)) / real_of_int (CHUNK_SIZE cfg - CHUNK_OVERLAP cfg)"
    using assms by simp
  then have "0 \<le> \<lceil>real (length (full_content p))
                     / real_of_int (CHUNK_SIZE cfg - CHUNK_OVERLAP cfg)\<rceil>"
    by (simp add: le_ceiling_iff)
  then show ?thesis
    using assms py_range_up_length [of "CHUNK_SIZE cfg - CHUNK_OVERLAP cfg" 0
        "int (length (full_content p))"]
    by (simp add: page_chunks_length page_starts_up)
qed

lemma page_chunks_reassemble:
  assumes "0 \<le> CHUNK_OVERLAP cfg" "CHUNK_OVERLAP cfg < CHUNK_SIZE cfg"
  shows "remove_overlaps (CHUNK_OVERLAP cfg) (map content (page_chunks cfg p cid))
           = full_content p"
  using remove_overlaps_windows [of "CHUNK_OVERLAP cfg" "CHUNK_SIZE cfg - CHUNK_OVERLAP cfg"
      "full_content p"] assms
  by (simp add: page_chunks_def chunk_page_contents page_starts_up)

section \<open>Chunking: the claims\<close>

text \<open>
  Claim C2, as the code has it. With \<open>O < C\<close>, the chunks emitted for a page \<open>p\<close> of
  length \<open>L\<close> (the part \<open>W\<close> of the output that the page's turn of the loop appends,
  whatever pages come before and after) number exactly \<open>ceil(L / (C - O))\<close>: one window
  starts at every multiple of \<open>C - O\<close> below \<open>L\<close>.
\<close>

theorem chunk_document_chunk_count:
  assumes "CHUNK_OVERLAP cfg < CHUNK_SIZE cfg"
  shows "\<exists>cs W ds. chunk_document cfg ps = Inr cs
           \<and> chunk_document cfg (ps @ [p]) = Inr (cs @ W)
           \<and> chunk_document cfg (ps @ p # qs) = Inr (cs @ W @ ds)
           \<and> int (length W) =
               \<lceil>real (length (full_content p))
                  / real_of_int (CHUNK_SIZE cfg - CHUNK_OVERLAP cfg)\<rceil>"
proof -
  have ne: "CHUNK_OVERLAP cfg \<noteq> CHUNK_SIZE cfg" using assms by simp
  obtain cs cid ds where "chunk_document cfg ps = Inr cs"
    "chunk_document cfg (ps @ [p]) = Inr (cs @ page_chunks cfg p cid)"
    "chunk_document cfg (ps @ p # qs) = Inr (cs @ page_chunks cfg p cid @ ds)"
    using chunk_document_decomp [OF ne, of ps p qs] by blast
  then show ?thesis
    using page_chunks_count [OF assms, of p cid] by blast
qed

theorem chunk_document_chunk_count_witness:
  "CHUNK_OVERLAP small_config < CHUNK_SIZE small_config
   \<and> (\<exists>cs W ds. chunk_document small_config [] = Inr cs
           \<and> chunk_document small_config ([] @ [page_abcd]) = Inr (cs @ W)
           \<and> chunk_document small_config ([] @ page_abcd # []) = Inr (cs @ W @ ds)
           \<and> int (length W) = 2)"
proof -
  have h: "CHUNK_OVERLAP small_config < CHUNK_SIZE small_config"
    by (simp add: small_config_def Config_def)
  have c: "\<lceil>real (length (full_content page_abcd))
             / real_of_int (CHUNK_SIZE small_config - CHUNK_OVERLAP small_config)\<rceil> = 2"
    by (simp add: small_config_def Config_def page_abcd_def)
  show ?thesis
    using h chunk_document_chunk_count [OF h, of "[]" page_abcd "[]"] unfolding c by simp
qed

text \<open>
  Claim C2 as stated fails: a page of four characters with \<open>C = 4\<close> and \<open>O = 1\<close> has
  \<open>L \<le> C\<close>, so the claim promises one chunk; \<open>range(0, 4, 3)\<close> yields the starts 0
  and 3 and the code emits two chunks.
\<close>

theorem chunk_count_counterexample:
  "chunk_document small_config [page_abcd] =
     Inr [\<lparr> chunk_id = 0, chunk_page_number = 1, content = ''abcd'', has_images = Some False \<rparr>,
          \<lparr> chunk_id = 1, chunk_page_number = 1, content = ''d'', has_images = Some False \<rparr>]
   \<and> spec_chunk_count (int (length (full_content page_abcd)))
        (CHUNK_SIZE small_config) (CHUNK_OVERLAP small_config) = 1"
  by (simp add: chunk_document_def py_range_def py_range_up.simps small_config_def Config_def
      page_abcd_def spec_chunk_count_def py_slice_def py_bound_def get_image_descriptions_def)


text \<open>
  Claim C3, as the code has it. Whenever \<open>chunk_document\<close> returns, the chunks it emitted
  for a page \<open>p\<close> (the part \<open>W\<close> of the output that the page's turn of the loop appended)
  all carry the page's number, and \<open>has_images\<close> is true exactly when the page's list
  \<open>image_descriptions\<close> has at least one entry, whatever the entries are.
\<close>

theorem chunk_has_images_flag:
  assumes "chunk_document cfg (ps @ p # qs) = Inr out"
  shows "\<exists>cs W ds. out = cs @ W @ ds
           \<and> chunk_document cfg ps = Inr cs
           \<and> chunk_document cfg (ps @ [p]) = Inr (cs @ W)
           \<and> (\<forall>c \<in> set W. chunk_page_number c = page_number p
                  \<and> has_images c = Some (get_image_descriptions p \<noteq> []))"
proof -
  have ne: "CHUNK_OVERLAP cfg \<noteq> CHUNK_SIZE cfg"
    using assms chunk_document_raise [of cfg ps p qs] by auto
  obtain cs cid ds where d: "chunk_document cfg ps = Inr cs"
    "chunk_document cfg (ps @ [p]) = Inr (cs @ page_chunks cfg p cid)"
    "chunk_document cfg (ps @ p # qs) = Inr (cs @ page_chunks cfg p cid @ ds)"
    using chunk_document_decomp [OF ne, of ps p qs] by blast
  have "out = cs @ page_chunks cfg p cid @ ds" using assms d(3) by simp
  then show ?thesis
    using d(1) d(2) page_chunks_flags [of _ cfg p cid] by blast
qed

theorem chunk_has_images_flag_witness:
  "chunk_document small_config ([page_abcd] @ page_efghijk # []) =
     Inr [\<lparr> chunk_id = 0, chunk_page_number = 1, content = ''abcd'', has_images = Some False \<rparr>,
          \<lparr> chunk_id = 1, chunk_page_number = 1, content = ''d'', has_images = Some False \<rparr>,
          \<lparr> chunk_id = 2, chunk_page_number = 2, content = ''efgh'', has_images = Some True \<rparr>,
          \<lparr> chunk_id = 3, chunk_page_number = 2, content = ''hijk'', has_images = Some True \<rparr>,
          \<lparr> chunk_id = 4, chunk_page_number = 2, content = ''k'', has_images = Some True \<rparr>]
   \<and> (\<exists>cs W ds.
          [\<lparr> chunk_id = 0, chunk_page_number = 1, content = ''abcd'', has_images = Some False \<rparr>,
           \<lparr> chunk_id = 1, chunk_page_number = 1, content = ''d'', has_images = Some False \<rparr>,
           \<lparr> chunk_id = 2, chunk_page_number = 2, content = ''efgh'', has_images = Some True \<rparr>,
           \<lparr> chunk_id = 3, chunk_page_number = 2, content = ''hijk'', has_images = Some True \<rparr>,
           \<lparr> chunk_id = 4, chunk_page_number = 2, content = ''k'', has_images = Some True \<rparr>]
          = cs @ W @ ds
        \<and> chunk_document small_config [page_abcd] = Inr cs
        \<and> chunk_document small_config ([page_abcd] @ [page_efghijk]) = Inr (cs @ W)
        \<and> (\<forall>c \<in> set W. chunk_page_number c = page_number page_efghijk
               \<and> has_images c = Some (get_image_descriptions page_efghijk \<noteq> [])))"
proof -
  have run: "chunk_document small_config ([page_abcd] @ page_efghijk # []) =
     Inr [\<lparr> chunk_id = 0, chunk_page_number = 1, content = ''abcd'', has_images = Some False \<rparr>,
          \<lparr> chunk_id = 1, chunk_page_number = 1, content = ''d'', has_images = Some False \<rparr>,
          \<lparr> chunk_id = 2, chunk_page_number = 2, content = ''efgh'', has_images = Some True \<rparr>,
          \<lparr> chunk_id = 3, chunk_page_number = 2, content = ''hijk'', has_images = Some True \<rparr>,
          \<lparr> chunk_id = 4, chunk_page_number = 2, content = ''k'', has_images = Some True \<rparr>]"
    by (simp add: chunk_document_def py_range_def py_range_up.simps small_config_def Config_def
        page_abcd_def page_efghijk_def py_slice_def py_bound_def get_image_descriptions_def)
  show ?thesis
    by (rule conjI [OF run chunk_has_images_flag [OF run]])
qed

text \<open>
  Claim C3 as stated fails on a page whose only image description is the empty string:
  \<open>_get_image_description\<close> returns \<open>response.text.strip()\<close>, which is empty when the
  vision model answers with blanks; the page that \<open>process_pdf\<close> builds from it yields a
  chunk with \<open>has_images\<close> true although no description is non-empty.
\<close>

theorem has_images_counterexample:
  "get_image_description (env_ok \<lparr> describe_image := (\<lambda>b. Returns '' '') \<rparr>)
       (world_empty \<lparr> files := [''data/images/page_1_img_1.png'' \<mapsto> ''PNG''] \<rparr>)
       ''data/images/page_1_img_1.png'' = ''''
   \<and> chunk_document Config [make_page 0 ''x'' ['''']] =
       Inr [\<lparr> chunk_id = 0, chunk_page_number = 1,
              content = ''Page 1'' @ nl @ nl @ ''x'' @ nl @ nl @ ''Visual Content:'' @ nl,
              has_images = Some True \<rparr>]
   \<and> has_nonempty_description (make_page 0 ''x'' ['''']) = False"
  by (simp add: get_image_description_def get_image_description_try_def env_ok_def
      world_empty_def py_strip_def py_isspace_def chunk_document_def py_range_def
      py_range_up.simps Config_def make_page_def py_slice_def py_bound_def
      get_image_descriptions_def has_nonempty_description_def str_int_def str_nat.simps
      digit_char_def nl_def)

text \<open>
  Claim C4. With \<open>0 \<le> O < C\<close>, the contents of the chunks emitted for a page \<open>p\<close>, the
  first \<open>O\<close> characters removed from every chunk but the first, concatenate to the
  page's \<open>full_content\<close>.
\<close>

theorem chunk_document_reassembles:
  assumes "0 \<le> CHUNK_OVERLAP cfg" and "CHUNK_OVERLAP cfg < CHUNK_SIZE cfg"
  shows "\<exists>cs W ds. chunk_document cfg ps = Inr cs
           \<and> chunk_document cfg (ps @ [p]) = Inr (cs @ W)
           \<and> chunk_document cfg (ps @ p # qs) = Inr (cs @ W @ ds)
           \<and> remove_overlaps (CHUNK_OVERLAP cfg) (map content W) = full_content p"
proof -
  have ne: "CHUNK_OVERLAP cfg \<noteq> CHUNK_SIZE cfg" using assms by simp
  obtain cs cid ds where "chunk_document cfg ps = Inr cs"
    "chunk_document cfg (ps @ [p]) = Inr (cs @ page_chunks cfg p cid)"
    "chunk_document cfg (ps @ p # qs) = Inr (cs @ page_chunks cfg p cid @ ds)"
    using chunk_document_decomp [OF ne, of ps p qs] by blast
  then show ?thesis
    using page_chunks_reassemble [OF assms, of p cid] by blast
qed

theorem chunk_document_reassembles_witness:
  "0 \<le> CHUNK_OVERLAP small_config \<and> CHUNK_OVERLAP small_config < CHUNK_SIZE small_config
   \<and> chunk_document small_config [page_efghijk] =
       Inr [\<lparr> chunk_id = 0, chunk_page_number = 2, content = ''efgh'', has_images = Some True \<rparr>,
            \<lparr> chunk_id = 1, chunk_page_number = 2, content = ''hijk'', has_images = Some True \<rparr>,
            \<lparr> chunk_id = 2, chunk_page_number = 2, content = ''k'', has_images = Some True \<rparr>]
   \<and> remove_overlaps 1 [''efgh'', ''hijk'', ''k''] = ''efghijk''
   \<and> (\<exists>cs W ds. chunk_document small_config [] = Inr cs
          \<and> chunk_document small_config ([] @ [page_efghijk]) = Inr (cs @ W)
          \<and> chunk_document small_config ([] @ page_efghijk # []) = Inr (cs @ W @ ds)
          \<and> remove_overlaps 1 (map content W) = ''efghijk'')"
proof -
  have h: "0 \<le> CHUNK_OVERLAP small_config" "CHUNK_OVERLAP small_config < CHUNK_SIZE small_config"
    by (simp_all add: small_config_def Config_def)
  have run: "chunk_document small_config [page_efghijk] =
       Inr [\<lparr> chunk_id = 0, chunk_page_number = 2, content = ''efgh'', has_images = Some True \<rparr>,
            \<lparr> chunk_id = 1, chunk_page_number = 2, content = ''hijk'', has_images = Some True \<rparr>,
            \<lparr> chunk_id = 2, chunk_page_number = 2, content = ''k'', has_images = Some True \<rparr>]"
    by (simp add: chunk_document_def py_range_def py_range_up.simps small_config_def Config_def
        page_efghijk_def py_slice_def py_bound_def get_image_descriptions_def)
  have r: "remove_overlaps 1 [''efgh'', ''hijk'', ''k''] = ''efghijk''"
    by (simp add: remove_overlaps_def)
  have v: "CHUNK_OVERLAP small_config = 1" "full_content page_efghijk = ''efghijk''"
    by (simp_all add: small_config_def Config_def page_efghijk_def)
  show ?thesis
    using h run r chunk_document_reassembles [OF h, of "[]" page_efghijk "[]"] unfolding v
    by simp
qed

section \<open>Vector store and query processor: the claims\<close>

text \<open>
  Neither \<open>get_embedding\<close> nor \<open>search\<close> raises, and neither touches the index's
  upsert log, the model's call log or the files.
\<close>

lemma get_embedding_returns:
  "\<exists>v w1. get_embedding cfg e w txt = (Inr v, w1)
      \<and> upsert_calls w1 = upsert_calls w \<and> model_calls w1 = model_calls w
      \<and> files w1 = files w"
  by (cases "get_embedding_try e txt")
    (simp_all add: get_embedding_def random_vector_def Let_def)

lemma search_returns:
  "\<exists>rs w1. search cfg e w query top_k flt = (Inr rs, w1)
      \<and> upsert_calls w1 = upsert_calls w \<and> model_calls w1 = model_calls w
      \<and> files w1 = files w"
proof -
  obtain v w1 where g: "get_embedding cfg e w query = (Inr v, w1)"
    "upsert_calls w1 = upsert_calls w" "model_calls w1 = model_calls w" "files w1 = files w"
    using get_embedding_returns [of cfg e w query] by blast
  show ?thesis
    by (cases "search_try e v top_k flt") (simp_all add: search_def g)
qed

text \<open>
  Claim C5. When the embedding service fails for a text (the call raises, or its result
  has no \<open>embedding\<close> key, so the \<open>try\<close> block of \<open>get_embedding\<close> ends in an exception),
  \<open>get_embedding\<close> returns normally: its value is the vector of the next
  \<open>GEMINI_EMBEDDING_DIM\<close> draws of \<open>random.random()\<close>, whose length is the configured
  dimensionality.
\<close>

theorem get_embedding_fallback:
  assumes "isl (get_embedding_try e txt)" and "0 \<le> GEMINI_EMBEDDING_DIM cfg"
  shows "\<exists>v. get_embedding cfg e w txt
              = (Inr v, w \<lparr> draws := draws w + nat (GEMINI_EMBEDDING_DIM cfg) \<rparr>)
           \<and> v = map (random_random e) [draws w ..< draws w + nat (GEMINI_EMBEDDING_DIM cfg)]
           \<and> int (length v) = GEMINI_EMBEDDING_DIM cfg"
proof -
  obtain ex where "get_embedding_try e txt = Inl ex"
    using assms(1) by (cases "get_embedding_try e txt") simp_all
  then show ?thesis
    using assms(2) by (simp add: get_embedding_def random_vector_def Let_def)
qed

theorem get_embedding_fallback_witness:
  "isl (get_embedding_try env_embed_down ''what rose?'')
   \<and> 0 \<le> GEMINI_EMBEDDING_DIM Config
   \<and> (\<exists>v. get_embedding Config env_embed_down world_empty ''what rose?''
              = (Inr v, world_empty \<lparr> draws := draws world_empty + nat (GEMINI_EMBEDDING_DIM Config) \<rparr>)
           \<and> v = map (random_random env_embed_down)
                   [draws world_empty ..< draws world_empty + nat (GEMINI_EMBEDDING_DIM Config)]
           \<and> int (length v) = GEMINI_EMBEDDING_DIM Config)
   \<and> GEMINI_EMBEDDING_DIM Config = 768"
proof -
  have h1: "isl (get_embedding_try env_embed_down ''what rose?'')"
    by (simp add: get_embedding_try_def env_embed_down_def env_ok_def)
  have h2: "0 \<le> GEMINI_EMBEDDING_DIM Config" by (simp add: Config_def)
  have d: "GEMINI_EMBEDDING_DIM Config = 768" by (simp add: Config_def)
  show ?thesis
    by (intro conjI h1 h2 d get_embedding_fallback [OF h1 h2])
qed

text \<open>
  Claim C6. \<open>search\<close> returns a list on every run, it never raises; and when the index
  query raises for the query's embedding, the list it returns is empty. (A failure of the
  embedding service does not reach \<open>search\<close>: \<open>get_embedding\<close> has already answered it
  with the fallback vector.)
\<close>

theorem search_failure_returns_empty:
  "\<exists>v rs w1. get_embedding cfg e w query = (Inr v, w1)
      \<and> search cfg e w query top_k flt = (Inr rs, w1)
      \<and> (\<forall>m. index_query e v top_k flt = Raises m \<longrightarrow> rs = [])"
proof -
  obtain v w1 where g: "get_embedding cfg e w query = (Inr v, w1)"
    using get_embedding_returns [of cfg e w query] by blast
  show ?thesis
    by (cases "index_query e v top_k flt") (simp_all add: search_def search_try_def g)
qed

theorem search_failure_returns_empty_witness:
  "index_query env_index_down [1, 0] 3 None = Raises ''connection reset''
   \<and> search Config env_index_down world_empty ''what rose?'' 3 None = (Inr [], world_empty)"
proof -
  have q: "index_query env_index_down [1, 0] 3 None = Raises ''connection reset''"
    by (simp add: env_index_down_def env_ok_def)
  have g: "get_embedding Config env_index_down world_empty ''what rose?'' = (Inr [1, 0], world_empty)"
    by (simp add: get_embedding_def get_embedding_try_def env_index_down_def env_ok_def)
  show ?thesis
    using q g search_failure_returns_empty [of Config env_index_down world_empty "''what rose?''" 3 None]
    by auto
qed

text \<open>
  Claim C7. When the retrieval step returns no search result, \<open>generate_response\<close>
  returns the fixed answer with empty \<open>sources\<close> and empty \<open>context\<close>, and the language
  model's call log is as it was before.
\<close>

theorem generate_response_no_results:
  assumes "fst (search cfg e w query 3 None) = Inr []"
  shows "fst (generate_response cfg e w query use_vision)
           = Inr [(''answer'', Answer ''I couldn't find any relevant information to answer your question.''),
                  (''sources'', Sources []),
                  (''context'', Context [])]
         \<and> model_calls (snd (generate_response cfg e w query use_vision)) = model_calls w"
proof -
  obtain rs w1 where s: "search cfg e w query 3 None = (Inr rs, w1)"
    "model_calls w1 = model_calls w"
    using search_returns [of cfg e w query 3 None] by blast
  then have "rs = []" using assms by simp
  then show ?thesis
    using s by (simp add: generate_response_def no_information_answer_def)
qed

theorem generate_response_no_results_witness:
  "fst (search Config env_no_match world_empty ''what rose?'' 3 None) = Inr []
   \<and> fst (generate_response Config env_no_match world_empty ''what rose?'' True)
           = Inr [(''answer'', Answer ''I couldn't find any relevant information to answer your question.''),
                  (''sources'', Sources []),
                  (''context'', Context [])]
   \<and> model_calls (snd (generate_response Config env_no_match world_empty ''what rose?'' True)) = []"
proof -
  have h: "fst (search Config env_no_match world_empty ''what rose?'' 3 None) = Inr []"
    by (simp add: search_def search_try_def get_embedding_def get_embedding_try_def
        env_no_match_def env_ok_def)
  show ?thesis
    using h generate_response_no_results [OF h, of True] by (simp add: world_empty_def)
qed

section \<open>Upsert: the claim\<close>












section \<open>Temporary image files: the claim\<close>

lemma image_step_removes:
  assumes "extract_image e xref = Returns image_bytes"
    and "\<not> open_raises e (image_path_of cfg page_num img_index)"
    and "\<not> write_raises e (image_path_of cfg page_num img_index)"
    and "\<not> remove_raises e (image_path_of cfg page_num img_index)"
  shows "files (snd (image_step cfg e page_num img_index xref st))
           = (files (snd st))(image_path_of cfg page_num img_index := None)"
  using assms by (cases st) (simp add: image_step_def image_step_try_def Let_def)

lemma image_loop_append:
  "image_loop cfg e page_num i (xs @ ys) st =
     image_loop cfg e page_num (i + length xs) ys (image_loop cfg e page_num i xs st)"
  by (induction xs arbitrary: i st) simp_all

lemma extract_and_describe_images_loop:
  "extract_and_describe_images cfg e w image_list page_num =
     image_loop cfg e page_num 0 image_list ([], w)"
  by (simp add: extract_and_describe_images_def)

text \<open>
  Claim C9, as the code has it. Take the image at position \<open>k\<close> of a page's image list,
  and let its bytes be extracted, its temporary file be opened and written, and
  \<open>os.remove\<close> not raise on it. Then, whatever the other images do and whatever its own
  description request does (no handle, an exception of the image library or of the vision
  model, an empty reply or a text), the run of \<open>_extract_and_describe_images\<close> is the rest
  of the loop, from image \<open>k + 1\<close> on, started in the state the first \<open>k + 1\<close> iterations
  leave, and in that state the temporary file of image \<open>k\<close> is gone.
\<close>

theorem temp_image_removed_before_next:
  assumes "k < length image_list"
    and "extract_image e (image_list ! k) = Returns image_bytes"
    and "\<not> open_raises e (image_path_of cfg page_num k)"
    and "\<not> write_raises e (image_path_of cfg page_num k)"
    and "\<not> remove_raises e (image_path_of cfg page_num k)"
  shows "extract_and_describe_images cfg e w image_list page_num =
           image_loop cfg e page_num (Suc k) (drop (Suc k) image_list)
             (image_loop cfg e page_num 0 (take (Suc k) image_list) ([], w))
         \<and> files (snd (image_loop cfg e page_num 0 (take (Suc k) image_list) ([], w)))
             (image_path_of cfg page_num k) = None"
proof -
  have split: "image_list = take (Suc k) image_list @ drop (Suc k) image_list" by simp
  have len: "length (take (Suc k) image_list) = Suc k" using assms(1) by simp
  have run: "extract_and_describe_images cfg e w image_list page_num =
           image_loop cfg e page_num (Suc k) (drop (Suc k) image_list)
             (image_loop cfg e page_num 0 (take (Suc k) image_list) ([], w))"
    using image_loop_append [of cfg e page_num 0 "take (Suc k) image_list"
        "drop (Suc k) image_list" "([], w)"] len
    by (simp add: extract_and_describe_images_loop)
  have "take (Suc k) image_list = take k image_list @ [image_list ! k]"
    using assms(1) by (simp add: take_Suc_conv_app_nth)
  then have "image_loop cfg e page_num 0 (take (Suc k) image_list) ([], w) =
               image_step cfg e page_num k (image_list ! k)
                 (image_loop cfg e page_num 0 (take k image_list) ([], w))"
    using image_loop_append [of cfg e page_num 0 "take k image_list" "[image_list ! k]" "([], w)"]
      assms(1) by simp
  then have "files (snd (image_loop cfg e page_num 0 (take (Suc k) image_list) ([], w)))
             (image_path_of cfg page_num k) = None"
    using image_step_removes [OF assms(2-5)] by simp
  then show ?thesis using run by simp
qed

lemmas image_eval =
  extract_and_describe_images_def image_step_def image_step_try_def Let_def env_ok_def
  get_image_description_def get_image_description_try_def world_empty_def
  image_path_of_def py_path_join_def Config_def str_int_def str_nat.simps digit_char_def
  py_strip_def py_isspace_def

theorem temp_image_removed_before_next_witness:
  "(0::nat) < length [12, 13 :: int]
   \<and> extract_image env_vision_down ([12, 13] ! 0) = Returns ''PNG''
   \<and> \<not> open_raises env_vision_down (image_path_of Config 0 0)
   \<and> \<not> write_raises env_vision_down (image_path_of Config 0 0)
   \<and> \<not> remove_raises env_vision_down (image_path_of Config 0 0)
   \<and> image_path_of Config 0 0 = ''data/images/page_1_img_1.png''
   \<and> fst (image_loop Config env_vision_down 0 0 (take (Suc 0) [12, 13]) ([], world_empty))
       = [''[Image description error: 429 quota exceeded]'']
   \<and> (extract_and_describe_images Config env_vision_down world_empty [12, 13] 0 =
           image_loop Config env_vision_down 0 (Suc 0) (drop (Suc 0) [12, 13])
             (image_loop Config env_vision_down 0 0 (take (Suc 0) [12, 13]) ([], world_empty))
         \<and> files (snd (image_loop Config env_vision_down 0 0 (take (Suc 0) [12, 13]) ([], world_empty)))
             (image_path_of Config 0 0) = None)"
proof -
  have h0: "(0::nat) < length [12, 13 :: int]" by simp
  have h1: "extract_image env_vision_down ([12, 13] ! 0) = Returns ''PNG''"
    by (simp add: env_vision_down_def env_ok_def)
  have h2: "\<not> open_raises env_vision_down (image_path_of Config 0 0)"
    and h3: "\<not> write_raises env_vision_down (image_path_of Config 0 0)"
    and h4: "\<not> remove_raises env_vision_down (image_path_of Config 0 0)"
    by (simp_all add: env_vision_down_def env_ok_def)
  have p: "image_path_of Config 0 0 = ''data/images/page_1_img_1.png''"
    by (simp add: image_eval)
  have d: "fst (image_loop Config env_vision_down 0 0 (take (Suc 0) [12, 13]) ([], world_empty))
       = [''[Image description error: 429 quota exceeded]'']"
    by (simp add: image_eval env_vision_down_def)
  show ?thesis
    by (intro conjI h0 h1 h2 h3 h4 p d
        conjunct1 [OF temp_image_removed_before_next [OF h0 h1 h2 h3 h4]]
        conjunct2 [OF temp_image_removed_before_next [OF h0 h1 h2 h3 h4]])
qed

text \<open>
  Claim C9 as stated fails where the removal is not reached or itself fails: the
  \<open>os.remove\<close> call sits at the end of the \<open>try\<close> block, not in a \<open>finally\<close>. When
  \<open>write\<close> raises on the first image's file, the handler continues with the second image
  and the file that \<open>open\<close> created stays; when \<open>os.remove\<close> raises after the description
  was appended, the written file stays.
\<close>

theorem temp_image_left_counterexample:
  "fst (extract_and_describe_images Config env_write_fails world_empty [12, 13] 0)
     = [''A bar chart.'']
   \<and> files (snd (extract_and_describe_images Config env_write_fails world_empty [12, 13] 0))
       ''data/images/page_1_img_1.png'' = Some []
   \<and> fst (extract_and_describe_images Config env_remove_fails world_empty [12, 13] 0)
     = [''A bar chart.'', ''A bar chart.'']
   \<and> files (snd (extract_and_describe_images Config env_remove_fails world_empty [12, 13] 0))
       ''data/images/page_1_img_1.png'' = Some ''PNG''"
  by (simp add: image_eval env_write_fails_def env_remove_fails_def)

section \<open>The prompt sent and the response returned\<close>

text \<open>
  Claim C10 at a run where the index returns one match and the model handle is missing:
  the dict returned has the keys \<open>answer\<close> and \<open>sources\<close> and no key \<open>context\<close>.
\<close>

theorem response_without_context:
  "fst (generate_response Config env_no_handle world_empty ''what rose?'' False) =
     Inr [(''answer'', Answer ''Error: Gemini model is not available. Please check your API key and model configuration.''),
          (''sources'', Sources [\<lparr> src_page = PageNumber 4, src_content = ''Sales rose....'',
                                   src_has_images = True \<rparr>])]
   \<and> has_key [(''answer'', Answer ''Error: Gemini model is not available. Please check your API key and model configuration.''),
          (''sources'', Sources [\<lparr> src_page = PageNumber 4, src_content = ''Sales rose....'',
                                   src_has_images = True \<rparr>])] ''context'' = False"
  by (simp add: generate_response_def search_def search_try_def get_embedding_def
      get_embedding_try_def env_no_handle_def env_ok_def format_match_def match_one_def
      get_page_label_def py_slice_to_def py_bound_def model_unavailable_answer_def has_key_def
      Let_def)

text \<open>
  Claim C1 at a run with \<open>use_vision\<close> true, one retrieved source with images and the
  model handle present: the \<open>contents\<close> the language model received is the single user
  turn, while the list \<open>formatted_messages\<close> built just before, with the system
  instruction and the appended vision instruction as its priming turn, was not sent.
\<close>

theorem prompt_without_system_turn:
  "model_calls (snd (generate_response Config env_ok world_empty ''what rose?'' True)) =
     [[\<lparr> role = ''user'',
         parts = [user_prompt (''[Source 1, Page 4]'' @ nl @ ''Sales rose.'') ''what rose?''] \<rparr>]]
   \<and> format_messages (build_messages (''[Source 1, Page 4]'' @ nl @ ''Sales rose.'') ''what rose?'' True
        [\<lparr> src_page = PageNumber 4, src_content = ''Sales rose....'', src_has_images = True \<rparr>]) =
     [\<lparr> role = ''user'', parts = [system_instruction @ vision_instruction] \<rparr>,
      \<lparr> role = ''model'', parts = [''I understand and will assist with your request.''] \<rparr>,
      \<lparr> role = ''user'',
        parts = [user_prompt (''[Source 1, Page 4]'' @ nl @ ''Sales rose.'') ''what rose?''] \<rparr>]"
  by (simp add: generate_response_def search_def search_try_def get_embedding_def
      get_embedding_try_def env_ok_def format_match_def match_one_def
      get_page_label_def py_slice_to_def py_bound_def Let_def ask_model_def build_messages_def
      format_messages_def world_empty_def str_int_def str_nat.simps digit_char_def)

end
